theory Spec2Isabelle
  imports Main "HOL-Library.Multiset"
begin

section \<open>Data model\<close>

text \<open>
  A shallow embedding of the actor runtime: \<^verbatim>\<open>message.h\<close>, \<^verbatim>\<open>actor.cpp\<close>,
  \<^verbatim>\<open>event_loop.cpp\<close> and \<^verbatim>\<open>scheduler.cpp\<close>. A C++ member \<^verbatim>\<open>x_\<close> is the record field
  \<open>x\<close> here (a name may not end in an underscore); \<^verbatim>\<open>id_\<close>, \<^verbatim>\<open>name_\<close>, \<^verbatim>\<open>state_\<close> and
  \<^verbatim>\<open>type_\<close> are \<open>actor_id\<close>, \<open>actor_name\<close>, \<open>actor_state\<close> and \<open>msg_type\<close>.
\<close>

subsection \<open>Messages\<close>

text \<open>\<^verbatim>\<open>Message::Priority\<close>, with the integer each enumerator is cast to.\<close>

datatype Priority = LOW | NORMAL | HIGH | CRITICAL

fun priority_int :: "Priority \<Rightarrow> int" where
  "priority_int LOW = 0"
| "priority_int NORMAL = 1"
| "priority_int HIGH = 2"
| "priority_int CRITICAL = 3"

text \<open>
  A \<^verbatim>\<open>std::any\<close> holds a value together with its type. The payloads of the repository hold
  \<^verbatim>\<open>int\<close>, \<^verbatim>\<open>bool\<close> and strings; \<^verbatim>\<open>any_cast<T>\<close> succeeds exactly on the alternative
  of type \<^verbatim>\<open>T\<close> and throws \<^verbatim>\<open>bad_any_cast\<close> otherwise. An expected type \<^verbatim>\<open>T\<close> is given by
  its cast.
\<close>

datatype any = AnyInt int | AnyBool bool | AnyString string

datatype bad_any_cast = BadAnyCast

fun any_cast_int :: "any \<Rightarrow> bad_any_cast + int" where
  "any_cast_int (AnyInt i) = Inr i"
| "any_cast_int _ = Inl BadAnyCast"

fun any_cast_bool :: "any \<Rightarrow> bad_any_cast + bool" where
  "any_cast_bool (AnyBool b) = Inr b"
| "any_cast_bool _ = Inl BadAnyCast"

fun any_cast_string :: "any \<Rightarrow> bad_any_cast + string" where
  "any_cast_string (AnyString x) = Inr x"
| "any_cast_string _ = Inl BadAnyCast"

text \<open>
  The class \<^verbatim>\<open>Message\<close>. \<open>created_at\<close> is a reading of the system clock, a natural number
  of ticks.
\<close>

record Message =
  msg_type :: string
  sender_id :: string
  target_id :: string
  payload :: "string \<rightharpoonup> any"
  created_at :: nat
  priority :: Priority

text \<open>
  The constructor \<^verbatim>\<open>Message::Message\<close> (message.cpp). It reads the clock
  (\<^verbatim>\<open>system_clock::now()\<close>); the reading is the first argument. The last two parameters
  have the defaults \<^verbatim>\<open>{}\<close> and \<^verbatim>\<open>Priority::NORMAL\<close>, written out at each call.
\<close>

definition mk_Message ::
  "nat \<Rightarrow> string \<Rightarrow> string \<Rightarrow> string \<Rightarrow> (string \<rightharpoonup> any) \<Rightarrow> Priority \<Rightarrow> Message" where
  "mk_Message now type sender target pl prio =
     \<lparr>msg_type = type, sender_id = sender, target_id = target, payload = pl,
      created_at = now, priority = prio\<rparr>"

text \<open>
  An exception in flight. The one the runtime throws itself is the
  \<^verbatim>\<open>std::runtime_error\<close> of the strict payload accessor, which the handlers of the
  repository call.
\<close>

datatype exn = runtime_error string

subsection \<open>Actors, event loops and the store\<close>

datatype State = CREATED | INITIALIZED | RUNNING | STOPPING | STOPPED

text \<open>
  The class \<^verbatim>\<open>Actor\<close>. The mailbox \<^verbatim>\<open>std::queue<Message>\<close> is a list with the front at
  the head. A handler is a \<^verbatim>\<open>std::function\<close> whose body lies outside the runtime:
  \<open>handlers\<close> maps a message type to the handler's name, of type \<open>'h\<close>, and the
  functions that call a handler take its meaning as a parameter. \<open>event_loop\<close> is
  the weak pointer: the address of a loop, or \<open>None\<close> when the pointer is empty.
\<close>

record 'h Actor =
  actor_id :: string
  actor_name :: string
  actor_state :: State
  message_queue :: "Message list"
  handlers :: "string \<rightharpoonup> 'h"
  event_loop :: "nat option"

text \<open>
  The class \<^verbatim>\<open>EventLoop\<close>: the registry maps an id to a \<^verbatim>\<open>shared_ptr<Actor>\<close>, an
  address in the store. The scheduler is modelled apart.
\<close>

record EventLoop =
  actors :: "string \<rightharpoonup> nat"
  running :: bool

text \<open>
  What the runtime writes to \<^verbatim>\<open>std::cout\<close> (state changes) and \<^verbatim>\<open>std::cerr\<close> (all the
  others): one constructor for each output statement of the functions modelled, and one
  list for both streams, in the order written.
\<close>

datatype diag =
    StateChangedLine string string State State
  | CannotInitialize string State
  | CannotStart string State
  | RejectedMessage string State
  | UnhandledMessageType string string string
  | EventLoopGone
  | TargetNotRunning string
  | TargetNotFound string
  | RemovedActorLine string string

text \<open>
  Actors are shared objects (\<^verbatim>\<open>shared_ptr\<close>): the store maps an address to the object
  there. A loop that has been destroyed is absent from \<open>loops\<close>, which is how a weak
  pointer to it expires.
\<close>

record 'h sys =
  heap :: "nat \<Rightarrow> 'h Actor"
  loops :: "nat \<rightharpoonup> EventLoop"
  out :: "diag list"

section \<open>The class Actor\<close>

definition has_messages :: "'h Actor \<Rightarrow> bool" where
  "has_messages a = (message_queue a \<noteq> [])"

definition is_running :: "'h Actor \<Rightarrow> bool" where
  "is_running a = (actor_state a = RUNNING)"

text \<open>
  \<^verbatim>\<open>Actor::set_state\<close>. The notification \<^verbatim>\<open>on_state_changed\<close> is virtual with an empty
  body in \<^verbatim>\<open>Actor\<close>; that body is the one modelled.
\<close>

definition set_state :: "nat \<Rightarrow> State \<Rightarrow> 'h sys \<Rightarrow> 'h sys" where
  "set_state this new_state s =
     (let a = heap s this; old_state = actor_state a in
      s\<lparr>heap := (heap s)(this := a\<lparr>actor_state := new_state\<rparr>),
        out := out s @ [StateChangedLine (actor_name a) (actor_id a) old_state new_state]\<rparr>)"

definition initialize :: "nat \<Rightarrow> 'h sys \<Rightarrow> 'h sys" where
  "initialize this s =
     (let a = heap s this in
      if actor_state a \<noteq> CREATED
      then s\<lparr>out := out s @ [CannotInitialize (actor_name a) (actor_state a)]\<rparr>
      else set_state this INITIALIZED s)"

definition start :: "nat \<Rightarrow> 'h sys \<Rightarrow> 'h sys" where
  "start this s =
     (let a = heap s this in
      if actor_state a \<noteq> INITIALIZED
      then s\<lparr>out := out s @ [CannotStart (actor_name a) (actor_state a)]\<rparr>
      else set_state this RUNNING s)"

definition stop :: "nat \<Rightarrow> 'h sys \<Rightarrow> 'h sys" where
  "stop this s =
     (if actor_state (heap s this) = STOPPED \<or> actor_state (heap s this) = STOPPING then s
      else
        let s1 = set_state this STOPPING s in
        if \<not> has_messages (heap s1 this) then set_state this STOPPED s1 else s1)"

definition stop_immediately :: "nat \<Rightarrow> 'h sys \<Rightarrow> 'h sys" where
  "stop_immediately this s =
     set_state this STOPPED
       (s\<lparr>heap := (heap s)(this := (heap s this)\<lparr>message_queue := []\<rparr>)\<rparr>)"

definition receive :: "nat \<Rightarrow> Message \<Rightarrow> 'h sys \<Rightarrow> 'h sys" where
  "receive this message s =
     (let a = heap s this in
      if actor_state a \<noteq> RUNNING \<and> actor_state a \<noteq> STOPPING
      then s\<lparr>out := out s @ [RejectedMessage (actor_name a) (actor_state a)]\<rparr>
      else s\<lparr>heap := (heap s)(this := a\<lparr>message_queue := message_queue a @ [message]\<rparr>)\<rparr>)"

text \<open>
  \<^verbatim>\<open>Actor::process_next_message\<close>. \<open>call h message\<close> is what running the body of the
  handler \<open>h\<close> on the message does: the system as the body leaves it, and the exception
  it throws, if it throws one. The handler runs after the message has left the queue.
  The function has no \<^verbatim>\<open>try\<close>: an exception of the handler leaves it at once, past the
  last test and the \<^verbatim>\<open>return true\<close>, so the result is the exception (\<open>Inl\<close>) or the
  value returned (\<open>Inr\<close>). The last test reads the actor as the handler left it.
\<close>

definition process_next_message ::
  "('h \<Rightarrow> Message \<Rightarrow> 'h sys \<Rightarrow> exn option \<times> 'h sys) \<Rightarrow> nat \<Rightarrow> 'h sys
     \<Rightarrow> (exn + bool) \<times> 'h sys" where
  "process_next_message call this s =
     (if actor_state (heap s this) = STOPPED then (Inr False, s)
      else
        case message_queue (heap s this) of
          [] \<Rightarrow> (Inr False, if actor_state (heap s this) = STOPPING
                             then set_state this STOPPED s else s)
        | message # rest \<Rightarrow>
            let s1 = s\<lparr>heap := (heap s)(this := (heap s this)\<lparr>message_queue := rest\<rparr>)\<rparr>;
                r = (case handlers (heap s1 this) (msg_type message) of
                       Some h \<Rightarrow> call h message s1
                     | None \<Rightarrow>
                         (None,
                          s1\<lparr>out := out s1 @
                            [UnhandledMessageType (actor_name (heap s1 this))
                               (actor_id (heap s1 this)) (msg_type message)]\<rparr>))
            in (case r of
                  (Some e, s2) \<Rightarrow> (Inl e, s2)
                | (None, s2) \<Rightarrow>
                    (Inr True,
                     if actor_state (heap s2 this) = STOPPING
                        \<and> message_queue (heap s2 this) = []
                     then set_state this STOPPED s2 else s2)))"

text \<open>
  \<^verbatim>\<open>Actor::peek_highest_priority_message\<close>, a const member function: it reads the actor
  and returns a message. \<open>peek_scan\<close> is its while loop over the copy of the queue, with
  \<^verbatim>\<open>highest_priority_msg\<close> as first argument.
\<close>

fun peek_scan :: "Message \<Rightarrow> Message list \<Rightarrow> Message" where
  "peek_scan highest_priority_msg [] = highest_priority_msg"
| "peek_scan highest_priority_msg (current # queue_copy) =
     peek_scan
       (if priority_int (priority current) > priority_int (priority highest_priority_msg)
        then current else highest_priority_msg)
       queue_copy"

definition peek_highest_priority_message :: "nat \<Rightarrow> 'h Actor \<Rightarrow> Message" where
  "peek_highest_priority_message now a =
     (case message_queue a of
        [] \<Rightarrow> mk_Message now ''empty'' [] [] Map.empty NORMAL
      | front # queue_copy \<Rightarrow> peek_scan front queue_copy)"

section \<open>The class EventLoop\<close>

definition find_actor :: "EventLoop \<Rightarrow> string \<Rightarrow> nat option" where
  "find_actor el an_id = actors el an_id"

text \<open>\<^verbatim>\<open>EventLoop::deliver_message\<close>; it reads the loop and changes actors only.\<close>

definition deliver_message :: "EventLoop \<Rightarrow> Message \<Rightarrow> 'h sys \<Rightarrow> 'h sys" where
  "deliver_message el message s =
     (case find_actor el (target_id message) of
        Some target_actor \<Rightarrow>
          if is_running (heap s target_actor) then receive target_actor message s
          else s\<lparr>out := out s @ [TargetNotRunning (target_id message)]\<rparr>
      | None \<Rightarrow> s\<lparr>out := out s @ [TargetNotFound (target_id message)]\<rparr>)"

text \<open>
  \<^verbatim>\<open>EventLoop::remove_actor\<close>, called on the loop at address \<open>l\<close>. A call on a loop that
  no longer exists is no behaviour of the program; the model leaves the system as it is.
\<close>

definition remove_actor :: "nat \<Rightarrow> string \<Rightarrow> 'h sys \<Rightarrow> 'h sys" where
  "remove_actor l an_id s =
     (case loops s l of
        None \<Rightarrow> s
      | Some el \<Rightarrow>
          (case actors el an_id of
             None \<Rightarrow> s
           | Some actor \<Rightarrow>
               let s1 = (if is_running (heap s actor) then stop_immediately actor s else s) in
               s1\<lparr>loops := (loops s1)(l \<mapsto> el\<lparr>actors := (actors el)(an_id := None)\<rparr>),
                  out := out s1 @
                    [RemovedActorLine (actor_name (heap s1 actor)) (actor_id (heap s1 actor))]\<rparr>))"

section \<open>Sending\<close>

text \<open>\<^verbatim>\<open>weak_ptr::lock\<close>: the loop pointed to, if there is one and it still exists.\<close>

definition lock :: "nat option \<Rightarrow> 'h sys \<Rightarrow> EventLoop option" where
  "lock w s = (case w of None \<Rightarrow> None | Some l \<Rightarrow> loops s l)"

text \<open>
  The two \<^verbatim>\<open>if\<close> statements in the middle of \<^verbatim>\<open>Actor::send\<close>, from the message passed in
  to the message passed on. Each builds a new \<^verbatim>\<open>Message\<close> with the four-argument call of
  the constructor, so with the default priority and a new reading of the clock
  (\<open>now1\<close>, \<open>now2\<close>).
\<close>

definition send_rewrite :: "nat \<Rightarrow> nat \<Rightarrow> string \<Rightarrow> string \<Rightarrow> Message \<Rightarrow> Message" where
  "send_rewrite now1 now2 self_id target_actor_id message =
     (let m1 = (if sender_id message = []
                then mk_Message now1 (msg_type message) self_id target_actor_id
                       (payload message) NORMAL
                else message);
          m2 = (if target_id m1 \<noteq> target_actor_id
                then mk_Message now2 (msg_type m1) (sender_id m1) target_actor_id
                       (payload m1) NORMAL
                else m1)
      in m2)"

text \<open>\<^verbatim>\<open>Actor::send\<close>.\<close>

definition send :: "nat \<Rightarrow> nat \<Rightarrow> nat \<Rightarrow> string \<Rightarrow> Message \<Rightarrow> 'h sys \<Rightarrow> 'h sys" where
  "send now1 now2 this target_actor_id message s =
     (case lock (event_loop (heap s this)) s of
        None \<Rightarrow> s\<lparr>out := out s @ [EventLoopGone]\<rparr>
      | Some el \<Rightarrow>
          deliver_message el
            (send_rewrite now1 now2 (actor_id (heap s this)) target_actor_id message) s)"

section \<open>The round-robin scheduler\<close>

text \<open>
  \<^verbatim>\<open>RoundRobinScheduler::next_actor\<close>, with \<^verbatim>\<open>current_index_\<close> passed in and returned.
  The index is a \<^verbatim>\<open>size_t\<close>; where one is added to it, it is below the size of a vector,
  so the sum does not wrap and a natural number stands for it.
\<close>

definition RoundRobinScheduler_next_actor :: "'a list \<Rightarrow> nat \<Rightarrow> 'a option \<times> nat" where
  "RoundRobinScheduler_next_actor as current_index =
     (if as = [] then (None, current_index)
      else
        let i = (if current_index \<ge> length as then 0 else current_index);
            actor = as ! i
        in (Some actor, (i + 1) mod length as))"

text \<open>\<open>n\<close> calls one after the other on the same candidate list: what each returned.\<close>

fun next_actors :: "nat \<Rightarrow> 'a list \<Rightarrow> nat \<Rightarrow> 'a option list \<times> nat" where
  "next_actors 0 as current_index = ([], current_index)"
| "next_actors (Suc n) as current_index =
     (let (r, i) = RoundRobinScheduler_next_actor as current_index;
          (rs, j) = next_actors n as i
      in (r # rs, j))"

section \<open>Payload access\<close>

text \<open>
  \<^verbatim>\<open>Message::get_payload_value<T>\<close> and \<^verbatim>\<open>Message::get_payload_value_or<T>\<close>. The type
  \<^verbatim>\<open>T\<close> is given by its \<^verbatim>\<open>any_cast\<close>; \<open>what\<close> is the text of \<^verbatim>\<open>bad_any_cast::what()\<close>,
  which the standard library chooses. Both failures of the strict accessor are a
  \<^verbatim>\<open>std::runtime_error\<close>, told apart by their text.
\<close>

definition get_payload_value ::
  "(any \<Rightarrow> bad_any_cast + 'a) \<Rightarrow> string \<Rightarrow> string \<Rightarrow> Message \<Rightarrow> exn + 'a" where
  "get_payload_value any_cast what key m =
     (case payload m key of
        Some v \<Rightarrow>
          (case any_cast v of
             Inr x \<Rightarrow> Inr x
           | Inl e \<Rightarrow>
               Inl (runtime_error
                      (''Type mismatch for key '' @ [CHR 0x27] @ key @ [CHR 0x27] @ '': '' @ what)))
      | None \<Rightarrow> Inl (runtime_error (''Key not found in payload: '' @ key)))"

definition get_payload_value_or ::
  "(any \<Rightarrow> bad_any_cast + 'a) \<Rightarrow> string \<Rightarrow> 'a \<Rightarrow> Message \<Rightarrow> 'a" where
  "get_payload_value_or any_cast key default_value m =
     (case payload m key of
        Some v \<Rightarrow> (case any_cast v of Inr x \<Rightarrow> x | Inl e \<Rightarrow> default_value)
      | None \<Rightarrow> default_value)"

section \<open>Sequences of operations on one actor\<close>








section \<open>A small system\<close>

text \<open>
  Two actors \<^verbatim>\<open>A\<close> and \<^verbatim>\<open>B\<close> at the addresses 0 and 1, registered with the loop at
  address 0, in given states and with given mailboxes; \<^verbatim>\<open>B\<close> handles \<^verbatim>\<open>ping\<close>.
\<close>

definition example_actor :: "string \<Rightarrow> State \<Rightarrow> Message list \<Rightarrow> (string \<rightharpoonup> string) \<Rightarrow> string Actor" where
  "example_actor n st q hs =
     \<lparr>actor_id = n, actor_name = n, actor_state = st, message_queue = q, handlers = hs,
      event_loop = Some 0\<rparr>"

definition example_loop :: EventLoop where
  "example_loop = \<lparr>actors = [''A'' \<mapsto> 0, ''B'' \<mapsto> 1], running = False\<rparr>"

definition example_sys :: "State \<Rightarrow> Message list \<Rightarrow> State \<Rightarrow> Message list \<Rightarrow> string sys" where
  "example_sys stA qA stB qB =
     \<lparr>heap = (\<lambda>_. example_actor [] CREATED [] Map.empty)
               (0 := example_actor ''A'' stA qA Map.empty,
                1 := example_actor ''B'' stB qB [''ping'' \<mapsto> ''handle_ping'']),
      loops = [0 \<mapsto> example_loop],
      out = []\<rparr>"

definition example_message :: "string \<Rightarrow> string \<Rightarrow> string \<Rightarrow> Priority \<Rightarrow> Message" where
  "example_message type sender target prio =
     mk_Message 7 type sender target [''count'' \<mapsto> AnyInt 1] prio"

text \<open>
  \<^verbatim>\<open>PingActor::handle_ping\<close> of the repository's example: it reads \<^verbatim>\<open>count\<close> with the
  strict accessor, so it throws on a payload without an \<^verbatim>\<open>int\<close> under that key, and
  otherwise sends a \<^verbatim>\<open>pong\<close> with the count plus one to the sender (the sum of the C++
  \<^verbatim>\<open>int\<close> as long as that does not overflow). The line it prints first is output of the
  application, not of the runtime, and is left out.
\<close>

definition handle_ping :: "nat \<Rightarrow> Message \<Rightarrow> 'h sys \<Rightarrow> exn option \<times> 'h sys" where
  "handle_ping this msg s =
     (case get_payload_value any_cast_int ''bad any_cast'' ''count'' msg of
        Inl e \<Rightarrow> (Some e, s)
      | Inr n \<Rightarrow>
          (None,
           send 8 9 this (sender_id msg)
             (mk_Message 8 ''pong'' (actor_id (heap s this)) (sender_id msg)
                [''count'' \<mapsto> AnyInt (n + 1)] NORMAL) s))"

definition ping_call :: "nat \<Rightarrow> string \<Rightarrow> Message \<Rightarrow> string sys \<Rightarrow> exn option \<times> string sys" where
  "ping_call this h msg s = handle_ping this msg s"

text \<open>
  The same handler written with the defaulting accessor, which never throws; a handler
  that puts the message back into its own actor's mailbox with the public \<^verbatim>\<open>receive\<close>;
  and a handler of a subclass that sets its own actor RUNNING with the protected
  \<^verbatim>\<open>set_state\<close>.
\<close>

definition example_call :: "nat \<Rightarrow> string \<Rightarrow> Message \<Rightarrow> string sys \<Rightarrow> exn option \<times> string sys" where
  "example_call this h msg s =
     (None,
      send 8 9 this (sender_id msg)
        (mk_Message 8 ''pong'' (actor_id (heap s this)) (sender_id msg)
           [''count'' \<mapsto> AnyInt (get_payload_value_or any_cast_int ''count'' 0 msg + 1)]
           NORMAL) s)"

definition requeue_call :: "nat \<Rightarrow> string \<Rightarrow> Message \<Rightarrow> string sys \<Rightarrow> exn option \<times> string sys" where
  "requeue_call this h msg s = (None, receive this msg s)"


section \<open>Verified properties\<close>

subsection \<open>Helper lemmas\<close>








lemma send_leaves_not_running:
  "actor_state (heap s a) \<noteq> RUNNING \<Longrightarrow> heap (send n1 n2 this t m s) a = heap s a"
  by (auto simp: send_def deliver_message_def receive_def is_running_def Let_def
      split: option.splits)

lemma public_operations_keep_stopping:
  assumes "actor_state (heap s this) = STOPPING"
  shows "\<forall>s' \<in> {initialize this s, start this s, stop this s, receive this m s,
            stop_immediately this s, send n1 n2 this t m s, send n1 n2 a t m s}.
          actor_state (heap s' this) = STOPPING
          \<or> (actor_state (heap s' this) = STOPPED \<and> message_queue (heap s' this) = [])"
proof -
  have "actor_state (heap s this) \<noteq> RUNNING" using assms by simp
  then have "heap (send n1 n2 this t m s) this = heap s this"
    "heap (send n1 n2 a t m s) this = heap s this"
    by (rule send_leaves_not_running)+
  with assms show ?thesis
    by (simp add: initialize_def start_def stop_def receive_def stop_immediately_def
        set_state_def Let_def)
qed


text \<open>The scan for the highest priority, and the rotation of the round-robin index.\<close>

lemma peek_scan_first_max:
  "\<exists>pre post. h # xs = pre @ peek_scan h xs # post
     \<and> (\<forall>m \<in> set pre. priority_int (priority m) < priority_int (priority (peek_scan h xs)))
     \<and> (\<forall>m \<in> set post. priority_int (priority m) \<le> priority_int (priority (peek_scan h xs)))"
proof (induction xs arbitrary: h)
  case Nil
  show ?case by (rule exI [of _ "[]"], rule exI [of _ "[]"]) simp
next
  case (Cons c r)
  show ?case
  proof (cases "priority_int (priority c) > priority_int (priority h)")
    case True
    then have ps: "peek_scan h (c # r) = peek_scan c r" by simp
    from Cons.IH [of c] obtain pre post where
      s: "c # r = pre @ peek_scan c r # post"
      and lt: "\<forall>m \<in> set pre. priority_int (priority m) < priority_int (priority (peek_scan c r))"
      and le: "\<forall>m \<in> set post. priority_int (priority m) \<le> priority_int (priority (peek_scan c r))"
      by blast
    have cle: "priority_int (priority c) \<le> priority_int (priority (peek_scan c r))"
    proof (cases pre)
      case Nil
      with s have "c # r = peek_scan c r # post" by (simp only: append_Nil)
      then have "c = peek_scan c r" by (rule list.inject [THEN iffD1, THEN conjunct1])
      then show ?thesis by (metis order_refl)
    next
      case (Cons p ps)
      with s have "c \<in> set pre" by simp
      with lt show ?thesis by force
    qed
    have d: "h # c # r = (h # pre) @ peek_scan c r # post" using s by simp
    have l: "\<forall>m \<in> set (h # pre). priority_int (priority m) < priority_int (priority (peek_scan c r))"
      using lt cle True by auto
    show ?thesis unfolding ps using d l le by blast
  next
    case False
    then have ps: "peek_scan h (c # r) = peek_scan h r" by simp
    from Cons.IH [of h] obtain pre post where
      s: "h # r = pre @ peek_scan h r # post"
      and lt: "\<forall>m \<in> set pre. priority_int (priority m) < priority_int (priority (peek_scan h r))"
      and le: "\<forall>m \<in> set post. priority_int (priority m) \<le> priority_int (priority (peek_scan h r))"
      by blast
    show ?thesis
    proof (cases pre)
      case Nil
      with s have "h # r = peek_scan h r # post" by (simp only: append_Nil)
      then have c12: "h = peek_scan h r \<and> r = post" by (rule list.inject [THEN iffD1])
      have e: "peek_scan h r = h" using c12 by (rule conjunct1 [THEN sym])
      have e2: "post = r" using c12 by (rule conjunct2 [THEN sym])
      have d: "h # c # r = [] @ peek_scan h r # (c # r)" by (simp only: e append_Nil)
      have l: "\<forall>m \<in> set (c # r). priority_int (priority m) \<le> priority_int (priority (peek_scan h r))"
        using le False unfolding e e2 by auto
      have n: "\<forall>m \<in> set []. priority_int (priority m) < priority_int (priority (peek_scan h r))"
        by simp
      show ?thesis unfolding ps using d l n by blast
    next
      case (Cons p ps')
      with s have "h # r = (p # ps') @ peek_scan h r # post" by (simp only:)
      then have "h # r = p # (ps' @ peek_scan h r # post)" by (simp only: append_Cons)
      then have c12: "h = p \<and> r = ps' @ peek_scan h r # post"
        by (rule list.inject [THEN iffD1])
      have p1: "p = h" using c12 by (rule conjunct1 [THEN sym])
      have p2: "r = ps' @ peek_scan h r # post" using c12 by (rule conjunct2)
      have "h \<in> set pre" unfolding Cons p1 by simp
      with lt have hl: "priority_int (priority h) < priority_int (priority (peek_scan h r))"
        by blast
      from p2 have "h # c # r = h # c # (ps' @ peek_scan h r # post)"
        by (rule arg_cong [where f = "\<lambda>x. h # c # x"])
      then have d: "h # c # r = (h # c # ps') @ peek_scan h r # post"
        by (simp only: append_Cons)
      have "\<forall>m \<in> set ps'. priority_int (priority m) < priority_int (priority (peek_scan h r))"
        using lt unfolding Cons by simp
      then have l: "\<forall>m \<in> set (h # c # ps').
          priority_int (priority m) < priority_int (priority (peek_scan h r))"
        using hl False by auto
      show ?thesis unfolding ps using d l le by blast
    qed
  qed
qed

lemma next_actor_in_range:
  "i < length as \<Longrightarrow>
   RoundRobinScheduler_next_actor as i = (Some (as ! i), Suc i mod length as)"
  by (auto simp: RoundRobinScheduler_next_actor_def Let_def)

lemma next_actor_reset:
  "length as \<le> i \<Longrightarrow> as \<noteq> [] \<Longrightarrow>
   RoundRobinScheduler_next_actor as i = RoundRobinScheduler_next_actor as 0"
  by (auto simp: RoundRobinScheduler_next_actor_def Let_def)

lemma mset_rotate_eq: "mset (rotate n xs) = mset xs"
proof -
  let ?k = "n mod length xs"
  have "mset xs = mset (take ?k xs @ drop ?k xs)" by simp
  also have "\<dots> = mset (take ?k xs) + mset (drop ?k xs)" by (rule mset_append)
  also have "\<dots> = mset (drop ?k xs) + mset (take ?k xs)" by (rule add.commute)
  also have "\<dots> = mset (drop ?k xs @ take ?k xs)" by (rule mset_append [symmetric])
  also have "\<dots> = mset (rotate n xs)" by (simp only: rotate_drop_take)
  finally show ?thesis by simp
qed

lemma next_actors_in_range:
  "i < length as \<Longrightarrow>
   next_actors n as i
     = (map (\<lambda>k. Some (as ! ((i + k) mod length as))) [0..<n], (i + n) mod length as)"
proof (induction n arbitrary: i)
  case 0
  then show ?case by simp
next
  case (Suc n)
  have "as \<noteq> []" using Suc.prems by auto
  then have "0 < length as" by simp
  then have lt: "Suc i mod length as < length as" by (rule mod_less_divisor)
  have m: "map (\<lambda>k. Some (as ! ((i + k) mod length as))) [0..<Suc n]
      = Some (as ! i) # map (\<lambda>k. Some (as ! ((Suc i mod length as + k) mod length as))) [0..<n]"
  proof -
    have "[0..<Suc n] = 0 # map Suc [0..<n]" by (simp add: upt_conv_Cons map_Suc_upt del: upt_Suc)
    then show ?thesis using Suc.prems by (simp add: mod_add_left_eq o_def del: upt_Suc)
  qed
  have e: "(Suc i mod length as + n) mod length as = (i + Suc n) mod length as"
    by (simp add: mod_add_left_eq)
  show ?case
    using Suc.IH [OF lt] Suc.prems m e
    by (simp add: next_actor_in_range del: upt_Suc)
qed

lemma next_actors_round:
  assumes "i < length as"
  shows "next_actors (length as) as i = (map Some (rotate i as), i)"
proof -
  have "map (\<lambda>k. Some (as ! ((i + k) mod length as))) [0..<length as] = map Some (rotate i as)"
    by (rule nth_equalityI) (simp_all add: nth_rotate)
  with next_actors_in_range [OF assms, of "length as"] assms show ?thesis by simp
qed

lemma next_actors_reset:
  "length as \<le> i \<Longrightarrow> as \<noteq> [] \<Longrightarrow> next_actors (length as) as i = next_actors (length as) as 0"
  by (cases "length as") (simp_all add: next_actor_reset)

text \<open>The definitions of the small system, for evaluating it.\<close>

lemmas ex_defs = example_sys_def example_loop_def example_actor_def example_message_def mk_Message_def

subsection \<open>Processing one message\<close>

text \<open>
  C1, in the form that holds of the code. \<open>process_next_message\<close> returns false exactly
  when the actor is STOPPED or its mailbox is empty. A STOPPED actor is left as it is; on
  an empty mailbox a STOPPING actor is set to STOPPED and any other actor is left as it
  is. Otherwise the front message leaves the mailbox. With no handler for its type the
  message is consumed, one diagnostic is printed, the call returns true, and the actor
  ends STOPPED exactly if it was STOPPING and the mailbox is now empty. With a handler,
  the handler runs on the message after the pop. If it throws, the exception leaves the
  call with the system as the handler left it: nothing is returned and the actor is not
  set to STOPPED. If it returns, the call returns true, and the actor is set to STOPPED
  exactly if it is STOPPING with an empty mailbox after the handler has run; nothing else
  changes. So when the pop emptied the mailbox of a STOPPING actor and the handler left
  the actor's state and mailbox alone, the actor ends STOPPED.
\<close>

theorem process_next_message_cases:
  "(fst (process_next_message call this s) = Inr False
      \<longleftrightarrow> actor_state (heap s this) = STOPPED \<or> message_queue (heap s this) = [])
   \<and> (actor_state (heap s this) = STOPPED \<longrightarrow> snd (process_next_message call this s) = s)
   \<and> (message_queue (heap s this) = [] \<longrightarrow>
        snd (process_next_message call this s)
          = (if actor_state (heap s this) = STOPPING then set_state this STOPPED s else s)
        \<and> actor_state (heap (snd (process_next_message call this s)) this)
          = (if actor_state (heap s this) = STOPPING then STOPPED else actor_state (heap s this))
        \<and> message_queue (heap (snd (process_next_message call this s)) this) = [])
   \<and> (actor_state (heap s this) \<noteq> STOPPED \<and> message_queue (heap s this) = m # rest
        \<and> handlers (heap s this) (msg_type m) = None \<longrightarrow>
        fst (process_next_message call this s) = Inr True
        \<and> heap (snd (process_next_message call this s))
          = (heap s)(this := (heap s this)
               \<lparr>actor_state := (if actor_state (heap s this) = STOPPING \<and> rest = []
                                 then STOPPED else actor_state (heap s this)),
                message_queue := rest\<rparr>)
        \<and> loops (snd (process_next_message call this s)) = loops s
        \<and> out (snd (process_next_message call this s))
          = out s @ UnhandledMessageType (actor_name (heap s this)) (actor_id (heap s this))
                      (msg_type m)
              # (if actor_state (heap s this) = STOPPING \<and> rest = []
                 then [StateChangedLine (actor_name (heap s this)) (actor_id (heap s this))
                         STOPPING STOPPED]
                 else []))
   \<and> (actor_state (heap s this) \<noteq> STOPPED \<and> message_queue (heap s this) = m # rest
        \<and> handlers (heap s this) (msg_type m) = Some h
        \<and> call h m (s\<lparr>heap := (heap s)(this := (heap s this)\<lparr>message_queue := rest\<rparr>)\<rparr>)
            = (Some e, s2) \<longrightarrow>
        process_next_message call this s = (Inl e, s2))
   \<and> (actor_state (heap s this) \<noteq> STOPPED \<and> message_queue (heap s this) = m # rest
        \<and> handlers (heap s this) (msg_type m) = Some h
        \<and> call h m (s\<lparr>heap := (heap s)(this := (heap s this)\<lparr>message_queue := rest\<rparr>)\<rparr>)
            = (None, s2) \<longrightarrow>
        fst (process_next_message call this s) = Inr True
        \<and> actor_state (heap (snd (process_next_message call this s)) this)
          = (if actor_state (heap s2 this) = STOPPING \<and> message_queue (heap s2 this) = []
             then STOPPED else actor_state (heap s2 this))
        \<and> message_queue (heap (snd (process_next_message call this s)) this)
          = message_queue (heap s2 this)
        \<and> (\<forall>a. a \<noteq> this \<longrightarrow> heap (snd (process_next_message call this s)) a = heap s2 a)
        \<and> loops (snd (process_next_message call this s)) = loops s2
        \<and> (actor_state (heap s this) = STOPPING \<and> rest = []
            \<and> actor_state (heap s2 this) = actor_state (heap s this)
            \<and> message_queue (heap s2 this) = rest \<longrightarrow>
            actor_state (heap (snd (process_next_message call this s)) this) = STOPPED
            \<and> message_queue (heap (snd (process_next_message call this s)) this) = []))"
  by (auto simp: process_next_message_def set_state_def Let_def fun_eq_iff
      split: list.splits option.splits prod.splits)

text \<open>A STOPPING actor with one queued message, handled by a replying handler: the call drains it.\<close>

theorem process_next_message_cases_witness:
  "actor_state (heap (example_sys RUNNING [] STOPPING [example_message ''ping'' ''A'' ''B'' HIGH]) 1) = STOPPING
   \<and> message_queue (heap (example_sys RUNNING [] STOPPING [example_message ''ping'' ''A'' ''B'' HIGH]) 1)
       = [example_message ''ping'' ''A'' ''B'' HIGH]
   \<and> handlers (heap (example_sys RUNNING [] STOPPING [example_message ''ping'' ''A'' ''B'' HIGH]) 1)
       (msg_type (example_message ''ping'' ''A'' ''B'' HIGH)) = Some ''handle_ping''
   \<and> fst (process_next_message (example_call 1) 1
        (example_sys RUNNING [] STOPPING [example_message ''ping'' ''A'' ''B'' HIGH])) = Inr True
   \<and> actor_state (heap (snd (process_next_message (example_call 1) 1
        (example_sys RUNNING [] STOPPING [example_message ''ping'' ''A'' ''B'' HIGH]))) 1) = STOPPED
   \<and> message_queue (heap (snd (process_next_message (example_call 1) 1
        (example_sys RUNNING [] STOPPING [example_message ''ping'' ''A'' ''B'' HIGH]))) 1) = []"
proof -
  let ?m = "example_message ''ping'' ''A'' ''B'' HIGH"
  let ?s = "example_sys RUNNING [] STOPPING [?m]"
  let ?p = "?s\<lparr>heap := (heap ?s)(1 := (heap ?s 1)\<lparr>message_queue := []\<rparr>)\<rparr>"
  have H: "actor_state (heap ?s 1) = STOPPING" "message_queue (heap ?s 1) = [?m]"
    "handlers (heap ?s 1) (msg_type ?m) = Some ''handle_ping''"
    by (simp_all add: example_sys_def example_actor_def example_message_def mk_Message_def)
  have C: "example_call 1 ''handle_ping'' ?m ?p = (None, snd (example_call 1 ''handle_ping'' ?m ?p))"
    by (simp add: example_call_def)
  have K: "actor_state (heap (snd (example_call 1 ''handle_ping'' ?m ?p)) 1) = actor_state (heap ?s 1)"
    "message_queue (heap (snd (example_call 1 ''handle_ping'' ?m ?p)) 1) = []"
    using H by (simp_all add: example_call_def send_leaves_not_running)
  have N: "actor_state (heap ?s 1) \<noteq> STOPPED" using H by simp
  from process_next_message_cases [of "example_call 1" 1 ?s ?m "[]" "''handle_ping''" _
      "snd (example_call 1 ''handle_ping'' ?m ?p)"]
    H C K N
  show ?thesis by blast
qed

text \<open>
  The finalisation does not follow from the pop alone, and the call does not always
  return. A STOPPING actor holds one message. With a handler that puts the message back
  with \<^verbatim>\<open>receive\<close>, the pop empties the mailbox, the call returns true and the actor is still
  STOPPING, with the message. With the example's \<^verbatim>\<open>handle_ping\<close> and a payload without
  \<^verbatim>\<open>count\<close>, the call ends in the accessor's exception: the message is gone and the actor
  is STOPPING with an empty mailbox.
\<close>

theorem process_next_message_handler_counterexample:
  "actor_state (heap (example_sys RUNNING [] STOPPING [example_message ''ping'' ''A'' ''B'' HIGH]) 1)
     = STOPPING
   \<and> message_queue (heap (example_sys RUNNING [] STOPPING [example_message ''ping'' ''A'' ''B'' HIGH]) 1)
     = [example_message ''ping'' ''A'' ''B'' HIGH]
   \<and> fst (process_next_message (requeue_call 1) 1
        (example_sys RUNNING [] STOPPING [example_message ''ping'' ''A'' ''B'' HIGH])) = Inr True
   \<and> actor_state (heap (snd (process_next_message (requeue_call 1) 1
        (example_sys RUNNING [] STOPPING [example_message ''ping'' ''A'' ''B'' HIGH]))) 1) \<noteq> STOPPED
   \<and> message_queue (heap (snd (process_next_message (requeue_call 1) 1
        (example_sys RUNNING [] STOPPING [example_message ''ping'' ''A'' ''B'' HIGH]))) 1)
     = [example_message ''ping'' ''A'' ''B'' HIGH]
   \<and> fst (process_next_message (ping_call 1) 1
        (example_sys RUNNING [] STOPPING [mk_Message 7 ''ping'' ''A'' ''B'' Map.empty HIGH]))
     = Inl (runtime_error ''Key not found in payload: count'')
   \<and> fst (process_next_message (ping_call 1) 1
        (example_sys RUNNING [] STOPPING [mk_Message 7 ''ping'' ''A'' ''B'' Map.empty HIGH]))
     \<noteq> Inr True
   \<and> actor_state (heap (snd (process_next_message (ping_call 1) 1
        (example_sys RUNNING [] STOPPING [mk_Message 7 ''ping'' ''A'' ''B'' Map.empty HIGH]))) 1)
     \<noteq> STOPPED
   \<and> message_queue (heap (snd (process_next_message (ping_call 1) 1
        (example_sys RUNNING [] STOPPING [mk_Message 7 ''ping'' ''A'' ''B'' Map.empty HIGH]))) 1)
     = []"
  by (simp add: process_next_message_def requeue_call_def ping_call_def handle_ping_def
      get_payload_value_def receive_def example_sys_def example_actor_def example_message_def
      mk_Message_def Let_def)

subsection \<open>Graceful stop\<close>




subsection \<open>Immediate stop\<close>

text \<open>
  C3. From every state, STOPPED included, \<open>stop_immediately\<close> leaves the actor
  STOPPED with an empty mailbox and touches no other field of it, no other actor and
  no loop. It runs whatever the prior state: each call prints its state-change line,
  from STOPPED too. It is idempotent: a second call leaves the store and the loops as the
  first left them.
\<close>

theorem stop_immediately_stopped:
  "actor_state (heap (stop_immediately this s) this) = STOPPED
   \<and> message_queue (heap (stop_immediately this s) this) = []
   \<and> heap (stop_immediately this s)
       = (heap s)(this := (heap s this)\<lparr>actor_state := STOPPED, message_queue := []\<rparr>)
   \<and> loops (stop_immediately this s) = loops s
   \<and> out (stop_immediately this s)
       = out s @ [StateChangedLine (actor_name (heap s this)) (actor_id (heap s this))
                    (actor_state (heap s this)) STOPPED]
   \<and> heap (stop_immediately this (stop_immediately this s)) = heap (stop_immediately this s)
   \<and> loops (stop_immediately this (stop_immediately this s)) = loops (stop_immediately this s)"
  by (simp add: stop_immediately_def set_state_def Let_def fun_eq_iff)

subsection \<open>Delivery\<close>

text \<open>
  C4. \<open>deliver_message\<close> appends the message to the mailbox of the actor registered
  under the message's target id when that actor is RUNNING, and changes nothing else. With
  no actor under that id, or with one in any other state (STOPPING too), the message is
  dropped: one diagnostic is printed and the store and the loops are as before. So the
  store changes if and only if the target is registered and RUNNING. The function returns
  the system alone: no error goes back to the sender.
\<close>

theorem deliver_message_running_only:
  "(actors el (target_id m) = Some t \<and> actor_state (heap s t) = RUNNING \<longrightarrow>
      deliver_message el m s
        = s\<lparr>heap := (heap s)(t := (heap s t)\<lparr>message_queue := message_queue (heap s t) @ [m]\<rparr>)\<rparr>)
   \<and> (actors el (target_id m) = Some t \<and> actor_state (heap s t) \<noteq> RUNNING \<longrightarrow>
      deliver_message el m s = s\<lparr>out := out s @ [TargetNotRunning (target_id m)]\<rparr>)
   \<and> (actors el (target_id m) = None \<longrightarrow>
      deliver_message el m s = s\<lparr>out := out s @ [TargetNotFound (target_id m)]\<rparr>)
   \<and> ((\<exists>a. actors el (target_id m) = Some a \<and> actor_state (heap s a) = RUNNING)
        \<longleftrightarrow> heap (deliver_message el m s) \<noteq> heap s)
   \<and> loops (deliver_message el m s) = loops s"
proof -
  have upd: "(heap s)(a := (heap s a)\<lparr>message_queue := message_queue (heap s a) @ [m]\<rparr>) \<noteq> heap s"
    for a
  proof
    assume "(heap s)(a := (heap s a)\<lparr>message_queue := message_queue (heap s a) @ [m]\<rparr>) = heap s"
    then have "((heap s)(a := (heap s a)\<lparr>message_queue := message_queue (heap s a) @ [m]\<rparr>)) a = heap s a"
      by simp
    then have "message_queue ((heap s a)\<lparr>message_queue := message_queue (heap s a) @ [m]\<rparr>)
        = message_queue (heap s a)" by simp
    then show False by simp
  qed
  show ?thesis
    using upd
    by (auto simp: deliver_message_def find_actor_def is_running_def receive_def Let_def
        split: option.splits)
qed

text \<open>A message to a RUNNING actor lands in its mailbox; one to a STOPPING actor is dropped.\<close>

theorem deliver_message_running_only_witness:
  "actors example_loop (target_id (example_message ''ping'' ''A'' ''B'' HIGH)) = Some 1
   \<and> actor_state (heap (example_sys RUNNING [] RUNNING []) 1) = RUNNING
   \<and> message_queue (heap (deliver_message example_loop (example_message ''ping'' ''A'' ''B'' HIGH)
        (example_sys RUNNING [] RUNNING [])) 1) = [example_message ''ping'' ''A'' ''B'' HIGH]
   \<and> actor_state (heap (example_sys RUNNING [] STOPPING []) 1) = STOPPING
   \<and> deliver_message example_loop (example_message ''ping'' ''A'' ''B'' HIGH)
        (example_sys RUNNING [] STOPPING [])
      = (example_sys RUNNING [] STOPPING [])\<lparr>out := [TargetNotRunning ''B'']\<rparr>"
proof -
  let ?m = "example_message ''ping'' ''A'' ''B'' HIGH"
  let ?s = "example_sys RUNNING [] RUNNING []"
  let ?s' = "example_sys RUNNING [] STOPPING []"
  have H: "actors example_loop (target_id ?m) = Some 1" "actor_state (heap ?s 1) = RUNNING"
    by (simp_all add: ex_defs)
  have H': "actor_state (heap ?s' 1) = STOPPING" "actor_state (heap ?s' 1) \<noteq> RUNNING"
    by (simp_all add: ex_defs)
  have q: "message_queue (heap ?s 1) = []" "out ?s' = []" "target_id ?m = ''B''"
    by (simp_all add: ex_defs)
  from deliver_message_running_only [of example_loop ?m 1 ?s] H
  have "deliver_message example_loop ?m ?s
      = ?s\<lparr>heap := (heap ?s)(1 := (heap ?s 1)\<lparr>message_queue := message_queue (heap ?s 1) @ [?m]\<rparr>)\<rparr>"
    by blast
  then have a: "message_queue (heap (deliver_message example_loop ?m ?s) 1) = [?m]"
    using q by simp
  from deliver_message_running_only [of example_loop ?m 1 ?s'] H H'
  have "deliver_message example_loop ?m ?s' = ?s'\<lparr>out := out ?s' @ [TargetNotRunning (target_id ?m)]\<rparr>"
    by blast
  then have b: "deliver_message example_loop ?m ?s' = ?s'\<lparr>out := [TargetNotRunning ''B'']\<rparr>"
    using q by simp
  from H H' a b show ?thesis by blast
qed

subsection \<open>Removing an actor\<close>

text \<open>
  C5, in the form that holds of the code. \<open>remove_actor\<close> with no actor under the
  id changes nothing. With an actor under the id, it erases the id from the registry in
  every case; it stops the actor at once (STOPPED, mailbox emptied) only if the actor is
  RUNNING, and leaves the actor's state and mailbox as they are in every other state.
\<close>

theorem remove_actor_stops_running_only:
  "loops s l = Some el \<longrightarrow>
     (actors el an_id = None \<longrightarrow> remove_actor l an_id s = s)
     \<and> (actors el an_id = Some a \<longrightarrow>
          heap (remove_actor l an_id s)
            = (if actor_state (heap s a) = RUNNING
               then (heap s)(a := (heap s a)\<lparr>actor_state := STOPPED, message_queue := []\<rparr>)
               else heap s)
          \<and> loops (remove_actor l an_id s)
            = (loops s)(l \<mapsto> el\<lparr>actors := (actors el)(an_id := None)\<rparr>))"
  by (auto simp: remove_actor_def is_running_def stop_immediately_def set_state_def Let_def fun_eq_iff)

text \<open>A RUNNING actor with a queued message is removed: it ends STOPPED and empty, out of the registry.\<close>

theorem remove_actor_stops_running_only_witness:
  "loops (example_sys RUNNING [example_message ''pong'' ''B'' ''A'' LOW] RUNNING []) 0
     = Some example_loop
   \<and> actors example_loop ''A'' = Some 0
   \<and> actor_state (heap (example_sys RUNNING [example_message ''pong'' ''B'' ''A'' LOW] RUNNING []) 0)
     = RUNNING
   \<and> actor_state (heap (remove_actor 0 ''A''
        (example_sys RUNNING [example_message ''pong'' ''B'' ''A'' LOW] RUNNING [])) 0) = STOPPED
   \<and> message_queue (heap (remove_actor 0 ''A''
        (example_sys RUNNING [example_message ''pong'' ''B'' ''A'' LOW] RUNNING [])) 0) = []
   \<and> loops (remove_actor 0 ''A''
        (example_sys RUNNING [example_message ''pong'' ''B'' ''A'' LOW] RUNNING [])) 0
     = Some (example_loop\<lparr>actors := (actors example_loop)(''A'' := None)\<rparr>)"
proof -
  let ?s = "example_sys RUNNING [example_message ''pong'' ''B'' ''A'' LOW] RUNNING []"
  have H: "loops ?s 0 = Some example_loop" "actors example_loop ''A'' = Some 0"
    "actor_state (heap ?s 0) = RUNNING"
    by (simp_all add: ex_defs)
  from remove_actor_stops_running_only [of ?s 0 example_loop "''A''" 0] H
  have "heap (remove_actor 0 ''A'' ?s)
      = (heap ?s)(0 := (heap ?s 0)\<lparr>actor_state := STOPPED, message_queue := []\<rparr>)"
    and "loops (remove_actor 0 ''A'' ?s)
      = (loops ?s)(0 \<mapsto> example_loop\<lparr>actors := (actors example_loop)(''A'' := None)\<rparr>)"
    by simp_all
  then have "actor_state (heap (remove_actor 0 ''A'' ?s) 0) = STOPPED"
    "message_queue (heap (remove_actor 0 ''A'' ?s) 0) = []"
    "loops (remove_actor 0 ''A'' ?s) 0
       = Some (example_loop\<lparr>actors := (actors example_loop)(''A'' := None)\<rparr>)"
    by simp_all
  with H show ?thesis by blast
qed

text \<open>
  The statement without the restriction to RUNNING actors fails: a registered STOPPING
  actor with a queued message is still STOPPING, with the message, after its removal.
\<close>

theorem remove_actor_not_running_counterexample:
  "loops (example_sys RUNNING [] STOPPING [example_message ''ping'' ''A'' ''B'' HIGH]) 0
     = Some example_loop
   \<and> actors example_loop ''B'' = Some 1
   \<and> actor_state (heap (remove_actor 0 ''B''
        (example_sys RUNNING [] STOPPING [example_message ''ping'' ''A'' ''B'' HIGH])) 1) \<noteq> STOPPED
   \<and> message_queue (heap (remove_actor 0 ''B''
        (example_sys RUNNING [] STOPPING [example_message ''ping'' ''A'' ''B'' HIGH])) 1) \<noteq> []"
  by (simp add: remove_actor_def example_sys_def example_loop_def example_actor_def is_running_def)

subsection \<open>Sending\<close>

text \<open>
  C6, in the form that holds of the code. When the weak pointer yields the loop,
  \<open>send\<close> passes to \<open>deliver_message\<close> a message whose target is the given target id
  and whose sender is the calling actor's id if the message came with an empty sender, and
  the sender the message came with otherwise. When the pointer yields nothing, \<open>send\<close>
  delivers nothing and prints one diagnostic.
\<close>

theorem send_sets_target_fills_sender:
  "(lock (event_loop (heap s this)) s = Some el \<longrightarrow>
      send now1 now2 this target message s
        = deliver_message el (send_rewrite now1 now2 (actor_id (heap s this)) target message) s)
   \<and> target_id (send_rewrite now1 now2 self target message) = target
   \<and> sender_id (send_rewrite now1 now2 self target message)
       = (if sender_id message = [] then self else sender_id message)
   \<and> (lock (event_loop (heap s this)) s = None \<longrightarrow>
      send now1 now2 this target message s = s\<lparr>out := out s @ [EventLoopGone]\<rparr>)"
  by (simp add: send_def send_rewrite_def mk_Message_def Let_def)

text \<open>A message with no sender and another target, sent with the loop alive and with the loop gone.\<close>

theorem send_sets_target_fills_sender_witness:
  "lock (event_loop (heap (example_sys RUNNING [] RUNNING []) 0)) (example_sys RUNNING [] RUNNING [])
     = Some example_loop
   \<and> send 8 9 0 ''B'' (example_message ''ping'' [] ''Z'' HIGH) (example_sys RUNNING [] RUNNING [])
     = deliver_message example_loop
         (send_rewrite 8 9 (actor_id (heap (example_sys RUNNING [] RUNNING []) 0)) ''B''
            (example_message ''ping'' [] ''Z'' HIGH))
         (example_sys RUNNING [] RUNNING [])
   \<and> lock (event_loop (heap ((example_sys RUNNING [] RUNNING [])\<lparr>loops := Map.empty\<rparr>) 0))
        ((example_sys RUNNING [] RUNNING [])\<lparr>loops := Map.empty\<rparr>) = None
   \<and> send 8 9 0 ''B'' (example_message ''ping'' [] ''Z'' HIGH)
        ((example_sys RUNNING [] RUNNING [])\<lparr>loops := Map.empty\<rparr>)
     = (example_sys RUNNING [] RUNNING [])\<lparr>loops := Map.empty, out := [EventLoopGone]\<rparr>"
proof -
  let ?m = "example_message ''ping'' [] ''Z'' HIGH"
  let ?s = "example_sys RUNNING [] RUNNING []"
  let ?d = "?s\<lparr>loops := Map.empty\<rparr>"
  have H: "lock (event_loop (heap ?s 0)) ?s = Some example_loop"
    "lock (event_loop (heap ?d 0)) ?d = None"
    by (simp_all add: lock_def ex_defs)
  have o: "out ?d = []" by (simp add: ex_defs)
  from send_sets_target_fills_sender [of ?s 0 example_loop 8 9 "''B''" ?m] H(1)
  have a: "send 8 9 0 ''B'' ?m ?s
     = deliver_message example_loop (send_rewrite 8 9 (actor_id (heap ?s 0)) ''B'' ?m) ?s"
    by blast
  from send_sets_target_fills_sender [of ?d 0 example_loop 8 9 "''B''" ?m] H(2)
  have "send 8 9 0 ''B'' ?m ?d = ?d\<lparr>out := out ?d @ [EventLoopGone]\<rparr>"
    by blast
  then have b: "send 8 9 0 ''B'' ?m ?d = ?s\<lparr>loops := Map.empty, out := [EventLoopGone]\<rparr>"
    using o by simp
  from H a b show ?thesis by blast
qed

text \<open>
  The sender is not always the calling actor: actor \<^verbatim>\<open>A\<close> sends a message with
  sender \<^verbatim>\<open>X\<close>, and the message that reaches the mailbox of \<^verbatim>\<open>B\<close> still has sender
  \<^verbatim>\<open>X\<close>.
\<close>

theorem send_keeps_sender_counterexample:
  "lock (event_loop (heap (example_sys RUNNING [] RUNNING []) 0)) (example_sys RUNNING [] RUNNING [])
     = Some example_loop
   \<and> message_queue (heap (send 8 9 0 ''B'' (example_message ''ping'' ''X'' ''B'' HIGH)
        (example_sys RUNNING [] RUNNING [])) 1) = [example_message ''ping'' ''X'' ''B'' HIGH]
   \<and> sender_id (example_message ''ping'' ''X'' ''B'' HIGH)
       \<noteq> actor_id (heap (example_sys RUNNING [] RUNNING []) 0)"
  by (simp add: send_def lock_def send_rewrite_def deliver_message_def find_actor_def receive_def
      is_running_def example_sys_def example_loop_def example_actor_def example_message_def
      mk_Message_def Let_def)

text \<open>
  C10. When the message comes with an empty sender or with a target other than the given
  one, \<open>send\<close> passes on a new message: same type and payload, the given target, the
  calling actor's id as sender if the sender was empty and the sender it came with
  otherwise, the priority NORMAL and a creation time read from the clock at the rewrite; the priority and creation time it came with are gone. A message with a sender
  and with the given target is passed on as it is. The message passed on is the one that
  reaches the mailbox of a registered RUNNING target.
\<close>

theorem send_rewrite_fresh_message:
  "(sender_id message = [] \<or> target_id message \<noteq> target \<longrightarrow>
      send_rewrite now1 now2 self target message
        = \<lparr>msg_type = msg_type message,
           sender_id = (if sender_id message = [] then self else sender_id message),
           target_id = target,
           payload = payload message,
           created_at = (if sender_id message = [] then now1 else now2),
           priority = NORMAL\<rparr>)
   \<and> (sender_id message \<noteq> [] \<and> target_id message = target \<longrightarrow>
      send_rewrite now1 now2 self target message = message)
   \<and> (lock (event_loop (heap s this)) s = Some el \<and> actors el target = Some t
        \<and> actor_state (heap s t) = RUNNING \<longrightarrow>
      message_queue (heap (send now1 now2 this target message s) t)
        = message_queue (heap s t)
            @ [send_rewrite now1 now2 (actor_id (heap s this)) target message])"
  by (auto simp: send_def send_rewrite_def mk_Message_def Let_def deliver_message_def
      find_actor_def is_running_def receive_def)

text \<open>A CRITICAL message stamped at 7: rewritten it is NORMAL and stamped at 8; well-addressed it is kept.\<close>

theorem send_rewrite_fresh_message_witness:
  "sender_id (example_message ''ping'' [] ''Z'' CRITICAL) = []
   \<and> send_rewrite 8 9 ''A'' ''B'' (example_message ''ping'' [] ''Z'' CRITICAL)
     = \<lparr>msg_type = ''ping'', sender_id = ''A'', target_id = ''B'',
        payload = [''count'' \<mapsto> AnyInt 1], created_at = 8, priority = NORMAL\<rparr>
   \<and> sender_id (example_message ''ping'' ''A'' ''B'' CRITICAL) = ''A''
   \<and> target_id (example_message ''ping'' ''A'' ''B'' CRITICAL) = ''B''
   \<and> send_rewrite 8 9 ''A'' ''B'' (example_message ''ping'' ''A'' ''B'' CRITICAL)
     = example_message ''ping'' ''A'' ''B'' CRITICAL"
proof -
  let ?m = "example_message ''ping'' [] ''Z'' CRITICAL"
  let ?k = "example_message ''ping'' ''A'' ''B'' CRITICAL"
  have H: "sender_id ?m = []" "sender_id ?k = ''A''" "target_id ?k = ''B''"
    by (simp_all add: ex_defs)
  have f: "msg_type ?m = ''ping''" "payload ?m = [''count'' \<mapsto> AnyInt 1]"
    by (simp_all add: ex_defs)
  from send_rewrite_fresh_message [of ?m "''B''" 8 9 "''A''"] H(1)
  have "send_rewrite 8 9 ''A'' ''B'' ?m
        = \<lparr>msg_type = msg_type ?m,
           sender_id = (if sender_id ?m = [] then ''A'' else sender_id ?m),
           target_id = ''B'', payload = payload ?m,
           created_at = (if sender_id ?m = [] then 8 else 9), priority = NORMAL\<rparr>"
    by blast
  then have a: "send_rewrite 8 9 ''A'' ''B'' ?m
     = \<lparr>msg_type = ''ping'', sender_id = ''A'', target_id = ''B'',
        payload = [''count'' \<mapsto> AnyInt 1], created_at = 8, priority = NORMAL\<rparr>"
    using H(1) f by simp
  have n: "sender_id ?k \<noteq> []" using H(2) by simp
  from send_rewrite_fresh_message [of ?k "''B''" 8 9 "''A''"] n H(3)
  have b: "send_rewrite 8 9 ''A'' ''B'' ?k = ?k" by blast
  from H a b show ?thesis by blast
qed

subsection \<open>Peeking at the highest priority\<close>

text \<open>
  C7. \<open>peek_highest_priority_message\<close> reads the actor and returns a message; the
  mailbox is not written. On an empty mailbox it returns the message of type \<^verbatim>\<open>empty\<close>.
  Otherwise it returns a queued message such that every message before it in the mailbox
  has a strictly lower priority and every message after it has a lower or equal priority:
  the greatest priority, and among equals the first arrived.
\<close>

theorem peek_highest_priority_first_max:
  "(message_queue a = [] \<longrightarrow>
      peek_highest_priority_message now a = mk_Message now ''empty'' [] [] Map.empty NORMAL)
   \<and> (message_queue a \<noteq> [] \<longrightarrow>
      (\<exists>pre post. message_queue a = pre @ peek_highest_priority_message now a # post
         \<and> (\<forall>m \<in> set pre. priority_int (priority m)
               < priority_int (priority (peek_highest_priority_message now a)))
         \<and> (\<forall>m \<in> set post. priority_int (priority m)
               \<le> priority_int (priority (peek_highest_priority_message now a)))))"
proof (cases "message_queue a")
  case Nil
  then show ?thesis by (simp add: peek_highest_priority_message_def)
next
  case (Cons h xs)
  then have "peek_highest_priority_message now a = peek_scan h xs"
    by (simp add: peek_highest_priority_message_def)
  with Cons peek_scan_first_max [of h xs] show ?thesis by simp
qed

text \<open>Priorities LOW, HIGH, HIGH, NORMAL: the first HIGH message is returned.\<close>

theorem peek_highest_priority_first_max_witness:
  "message_queue (example_actor ''A'' RUNNING
      [example_message ''a'' ''B'' ''A'' LOW, example_message ''b'' ''B'' ''A'' HIGH,
       example_message ''c'' ''B'' ''A'' HIGH, example_message ''d'' ''B'' ''A'' NORMAL] Map.empty) \<noteq> []
   \<and> peek_highest_priority_message 3 (example_actor ''A'' RUNNING
      [example_message ''a'' ''B'' ''A'' LOW, example_message ''b'' ''B'' ''A'' HIGH,
       example_message ''c'' ''B'' ''A'' HIGH, example_message ''d'' ''B'' ''A'' NORMAL] Map.empty)
     = example_message ''b'' ''B'' ''A'' HIGH
   \<and> (\<exists>pre post.
        [example_message ''a'' ''B'' ''A'' LOW, example_message ''b'' ''B'' ''A'' HIGH,
         example_message ''c'' ''B'' ''A'' HIGH, example_message ''d'' ''B'' ''A'' NORMAL]
          = pre @ example_message ''b'' ''B'' ''A'' HIGH # post
        \<and> (\<forall>m \<in> set pre. priority_int (priority m) < 2)
        \<and> (\<forall>m \<in> set post. priority_int (priority m) \<le> 2))"
proof -
  let ?q = "[example_message ''a'' ''B'' ''A'' LOW, example_message ''b'' ''B'' ''A'' HIGH,
       example_message ''c'' ''B'' ''A'' HIGH, example_message ''d'' ''B'' ''A'' NORMAL]"
  let ?a = "example_actor ''A'' RUNNING ?q Map.empty"
  have q: "message_queue ?a = ?q" by (simp add: example_actor_def)
  then have H: "message_queue ?a \<noteq> []" by simp
  have v: "peek_highest_priority_message 3 ?a = example_message ''b'' ''B'' ''A'' HIGH"
    by (simp add: peek_highest_priority_message_def ex_defs)
  have p: "priority_int (priority (example_message ''b'' ''B'' ''A'' HIGH)) = 2"
    by (simp add: ex_defs)
  from peek_highest_priority_first_max [of ?a 3] H
  have "\<exists>pre post. message_queue ?a = pre @ peek_highest_priority_message 3 ?a # post
         \<and> (\<forall>m \<in> set pre. priority_int (priority m)
               < priority_int (priority (peek_highest_priority_message 3 ?a)))
         \<and> (\<forall>m \<in> set post. priority_int (priority m)
               \<le> priority_int (priority (peek_highest_priority_message 3 ?a)))"
    by blast
  then have e: "\<exists>pre post. ?q = pre @ example_message ''b'' ''B'' ''A'' HIGH # post
        \<and> (\<forall>m \<in> set pre. priority_int (priority m) < 2)
        \<and> (\<forall>m \<in> set post. priority_int (priority m) \<le> 2)"
    by (simp only: q v p)
  from H v e show ?thesis by blast
qed

subsection \<open>Round robin\<close>

text \<open>
  C8, in the form that holds of the code. On an empty candidate list the scheduler
  returns none and keeps its index. On a list of size N > 0 it returns the actor at its
  index, after setting the index to 0 when it is N or more (not to the index modulo N),
  and advances the index by one modulo N. Over N calls in a row on the same list it
  returns the list rotated by the index it started from, so each candidate exactly once,
  and ends at that index.
\<close>

theorem round_robin_rotation:
  "RoundRobinScheduler_next_actor [] i = (None, i)
   \<and> (as \<noteq> [] \<longrightarrow>
        RoundRobinScheduler_next_actor as i
          = (Some (as ! (if length as \<le> i then 0 else i)),
             ((if length as \<le> i then 0 else i) + 1) mod length as)
        \<and> fst (next_actors (length as) as i)
          = map Some (rotate (if length as \<le> i then 0 else i) as)
        \<and> mset (fst (next_actors (length as) as i)) = mset (map Some as)
        \<and> snd (next_actors (length as) as i) = (if length as \<le> i then 0 else i))"
proof (intro conjI impI)
  show "RoundRobinScheduler_next_actor [] i = (None, i)"
    by (simp add: RoundRobinScheduler_next_actor_def)
next
  assume ne: "as \<noteq> []"
  show "RoundRobinScheduler_next_actor as i
          = (Some (as ! (if length as \<le> i then 0 else i)),
             ((if length as \<le> i then 0 else i) + 1) mod length as)"
    using ne by (simp add: RoundRobinScheduler_next_actor_def Let_def)
  have r: "next_actors (length as) as i
      = (map Some (rotate (if length as \<le> i then 0 else i) as), if length as \<le> i then 0 else i)"
  proof (cases "length as \<le> i")
    case True
    with ne next_actors_reset [of as i] next_actors_round [of 0 as] show ?thesis by simp
  next
    case False
    with next_actors_round [of i as] show ?thesis by simp
  qed
  then show "fst (next_actors (length as) as i)
          = map Some (rotate (if length as \<le> i then 0 else i) as)"
    and "snd (next_actors (length as) as i) = (if length as \<le> i then 0 else i)"
    by simp_all
  from r show "mset (fst (next_actors (length as) as i)) = mset (map Some as)"
    by (simp add: mset_rotate_eq)
qed

text \<open>Three candidates, from index 1 and from the stale index 7.\<close>

theorem round_robin_rotation_witness:
  "[''a'', ''b'', ''c''] \<noteq> []
   \<and> fst (next_actors (length [''a'', ''b'', ''c'']) [''a'', ''b'', ''c''] 1)
     = [Some ''b'', Some ''c'', Some ''a'']
   \<and> fst (next_actors (length [''a'', ''b'', ''c'']) [''a'', ''b'', ''c''] 7)
     = [Some ''a'', Some ''b'', Some ''c'']
   \<and> RoundRobinScheduler_next_actor [''a'', ''b'', ''c''] 7 = (Some ''a'', 1)"
proof -
  let ?as = "[''a'', ''b'', ''c'']"
  have H: "?as \<noteq> []" by simp
  have r: "rotate 1 ?as = [''b'', ''c'', ''a'']" "rotate 0 ?as = ?as" by simp_all
  have l: "\<not> length ?as \<le> 1" "length ?as \<le> 7" by simp_all
  note T = round_robin_rotation [THEN conjunct2, THEN mp, OF H]
  from T [of 1] have "fst (next_actors (length ?as) ?as 1)
      = map Some (rotate (if length ?as \<le> 1 then 0 else 1) ?as)" by blast
  then have a: "fst (next_actors (length ?as) ?as 1) = [Some ''b'', Some ''c'', Some ''a'']"
    using l(1) r(1) by simp
  from T [of 7] have "fst (next_actors (length ?as) ?as 7)
      = map Some (rotate (if length ?as \<le> 7 then 0 else 7) ?as)" by blast
  then have b: "fst (next_actors (length ?as) ?as 7) = [Some ''a'', Some ''b'', Some ''c'']"
    using l(2) by simp
  from T [of 7] have "RoundRobinScheduler_next_actor ?as 7
          = (Some (?as ! (if length ?as \<le> 7 then 0 else 7)),
             ((if length ?as \<le> 7 then 0 else 7) + 1) mod length ?as)" by blast
  then have c: "RoundRobinScheduler_next_actor ?as 7 = (Some ''a'', 1)"
    using l(2) by simp
  from H a b c show ?thesis by blast
qed

text \<open>
  The actor returned is not always the one at the index modulo the size: three calls on
  five candidates leave the index at 3; on two candidates the scheduler then returns the
  first, where the index modulo the size of the list points at the second.
\<close>

theorem round_robin_reset_counterexample:
  "snd (next_actors 3 [''a'', ''b'', ''c'', ''d'', ''e''] 0) = 3
   \<and> fst (RoundRobinScheduler_next_actor [''a'', ''b''] 3)
       \<noteq> Some ([''a'', ''b''] ! (3 mod length [''a'', ''b'']))"
proof -
  have l: "length [''a'', ''b''] = 2" by simp
  have i: "snd (next_actors 3 [''a'', ''b'', ''c'', ''d'', ''e''] 0) = 3"
    using next_actors_in_range [of 0 "[''a'', ''b'', ''c'', ''d'', ''e'']" 3] by simp
  have a: "fst (RoundRobinScheduler_next_actor [''a'', ''b''] 3) = Some ''a''"
    by (simp add: RoundRobinScheduler_next_actor_def)
  have b: "[''a'', ''b''] ! (3 mod length [''a'', ''b'']) = ''b''"
    unfolding l by simp
  from i a b show ?thesis by simp
qed

subsection \<open>Payload access\<close>

text \<open>
  C9. On a missing key the strict accessor fails with the key-not-found error and the
  defaulting accessor returns the default. On a key whose value has another type the
  strict accessor fails with the type-mismatch error and the defaulting accessor returns
  the default. On a key whose value has the expected type both return the value. The two
  errors are never equal, whatever the keys. The defaulting accessor returns a value of
  the expected type in every case: it has no failure to pass on.
\<close>

theorem payload_accessors:
  "(payload m key = None \<longrightarrow>
      get_payload_value any_cast what key m
        = Inl (runtime_error (''Key not found in payload: '' @ key))
      \<and> get_payload_value_or any_cast key default_value m = default_value)
   \<and> (payload m key = Some v \<and> any_cast v = Inl e \<longrightarrow>
      get_payload_value any_cast what key m
        = Inl (runtime_error
                 (''Type mismatch for key '' @ [CHR 0x27] @ key @ [CHR 0x27] @ '': '' @ what))
      \<and> get_payload_value_or any_cast key default_value m = default_value)
   \<and> (payload m key = Some v \<and> any_cast v = Inr x \<longrightarrow>
      get_payload_value any_cast what key m = Inr x
      \<and> get_payload_value_or any_cast key default_value m = x)
   \<and> runtime_error (''Type mismatch for key '' @ [CHR 0x27] @ key @ [CHR 0x27] @ '': '' @ what)
       \<noteq> runtime_error (''Key not found in payload: '' @ key')"
  by (simp add: get_payload_value_def get_payload_value_or_def)

text \<open>The payload holds an \<^verbatim>\<open>int\<close> under \<^verbatim>\<open>count\<close>: read as int, read as bool, and a missing key.\<close>

theorem payload_accessors_witness:
  "payload (example_message ''ping'' ''A'' ''B'' HIGH) ''count'' = Some (AnyInt 1)
   \<and> any_cast_int (AnyInt 1) = Inr 1
   \<and> any_cast_bool (AnyInt 1) = Inl BadAnyCast
   \<and> payload (example_message ''ping'' ''A'' ''B'' HIGH) ''reply'' = None
   \<and> get_payload_value any_cast_int ''bad any_cast'' ''count''
        (example_message ''ping'' ''A'' ''B'' HIGH) = Inr 1
   \<and> get_payload_value_or any_cast_int ''count'' 0 (example_message ''ping'' ''A'' ''B'' HIGH) = 1
   \<and> get_payload_value any_cast_bool ''bad any_cast'' ''count''
        (example_message ''ping'' ''A'' ''B'' HIGH)
      = Inl (runtime_error
               (''Type mismatch for key '' @ [CHR 0x27] @ ''count'' @ [CHR 0x27] @ '': ''
                  @ ''bad any_cast''))
   \<and> get_payload_value_or any_cast_bool ''count'' True
        (example_message ''ping'' ''A'' ''B'' HIGH) = True
   \<and> get_payload_value any_cast_bool ''bad any_cast'' ''reply''
        (example_message ''ping'' ''A'' ''B'' HIGH)
      = Inl (runtime_error (''Key not found in payload: '' @ ''reply''))
   \<and> get_payload_value_or any_cast_bool ''reply'' False
        (example_message ''ping'' ''A'' ''B'' HIGH) = False"
proof -
  let ?m = "example_message ''ping'' ''A'' ''B'' HIGH"
  have H: "payload ?m ''count'' = Some (AnyInt 1)" "any_cast_int (AnyInt 1) = Inr 1"
    "any_cast_bool (AnyInt 1) = Inl BadAnyCast" "payload ?m ''reply'' = None"
    by (simp_all add: ex_defs)
  note A = payload_accessors [of ?m "''count''" any_cast_int "''bad any_cast''" 0 "AnyInt 1" BadAnyCast 1]
  note B = payload_accessors [of ?m "''count''" any_cast_bool "''bad any_cast''" True "AnyInt 1" BadAnyCast]
  note C = payload_accessors [of ?m "''reply''" any_cast_bool "''bad any_cast''" False]
  from A H have a: "get_payload_value any_cast_int ''bad any_cast'' ''count'' ?m = Inr 1"
    "get_payload_value_or any_cast_int ''count'' 0 ?m = 1" by blast+
  from B H have b: "get_payload_value any_cast_bool ''bad any_cast'' ''count'' ?m
      = Inl (runtime_error
               (''Type mismatch for key '' @ [CHR 0x27] @ ''count'' @ [CHR 0x27] @ '': ''
                  @ ''bad any_cast''))"
    "get_payload_value_or any_cast_bool ''count'' True ?m = True" by blast+
  from C H have c: "get_payload_value any_cast_bool ''bad any_cast'' ''reply'' ?m
      = Inl (runtime_error (''Key not found in payload: '' @ ''reply''))"
    "get_payload_value_or any_cast_bool ''reply'' False ?m = False" by blast+
  from H a b c show ?thesis by blast
qed

end
